theory Spec2Isabelle
  imports Complex_Main "HOL-Library.Word"
begin

section \<open>The visual memory engine (visual_memory.h)\<close>

text \<open>
  The engine keeps one \<open>Cell\<close> per (camera sample, mapped LED pixel) pair in a memory
  mapped file, and a learning thread sweeps over all cells for ever, publishing a
  normalised recall buffer after each sweep.

  Numbers. \<open>memory_t\<close> is \<open>double\<close> and the camera motion is \<open>float\<close> in the source.
  The learning sweep is embedded over the real numbers: sums, products and its two
  divisions (by the constant threshold, and by \<open>recallTotal\<close> under its test) are
  exact, and rounding, overflow, NaN and infinities are left out. The debug
  snapshot divides by a value that can be zero, where IEEE arithmetic and the reals of HOL
  part ways (\<open>1 / 0 = 0\<close> in HOL), so it is embedded over a type with the IEEE special
  values written out (section on \<open>debug\<close>). The publish step tests \<open>recallTotal\<close>
  before it divides; over the reals of HOL that test cannot be told from its absence, so
  the publish step is embedded a second time over the same type (\<open>publishIEEE\<close>),
  and the two embeddings agree on finite values (\<open>publish_refines\<close>).
\<close>

subsection \<open>Cells and constants\<close>

type_synonym memory_t = real

record Cell =
  shortTerm :: memory_t
  longTerm :: memory_t

definition kMotionThreshold :: memory_t where
  "kMotionThreshold = 100"

definition kShortTermPermeability :: memory_t where
  "kShortTermPermeability = 1 / 10"

definition kLongTermPermeability :: memory_t where
  "kLongTermPermeability = 1 / 10000"

subsection \<open>reinforcementFunction\<close>

text \<open>\<open>Vec3\<close> holds the three colour channels \<open>led[0]\<close>, \<open>led[1]\<close>, \<open>led[2]\<close>.\<close>

type_synonym Vec3 = "real \<times> real \<times> real"

definition reinforcementFunction :: "int \<Rightarrow> Vec3 \<Rightarrow> memory_t" where
  "reinforcementFunction luminance led =
     (let r = min 1 (fst led);
          g = min 1 (fst (snd led));
          b = min 1 (snd (snd led));
          lumaSq = real_of_int (luminance * luminance) / 65025;
          pixSq = (r * r + g * g + b * b) / 3
      in lumaSq * pixSq)"

subsection \<open>The update of one cell\<close>

text \<open>
  The body of the inner loop of \<open>learnWorker\<close> between \<open>Cell state = *cell\<close> and
  \<open>*cell = state\<close>: short term learning with a fixed decay and additive reinforcement,
  then the cubic long term law.
\<close>

definition updateCell :: "memory_t \<Rightarrow> Cell \<Rightarrow> Cell" where
  "updateCell reinforcement state =
     (let state1 = state\<lparr>shortTerm :=
            (shortTerm state - shortTerm state * kShortTermPermeability) + reinforcement\<rparr>;
          r = shortTerm state1 - longTerm state1
      in state1\<lparr>longTerm := longTerm state1 + (r * r * r) * kLongTermPermeability\<rparr>)"

subsection \<open>The learning gate\<close>

text \<open>
  \<open>float r = prng.uniform(); r *= r; bool isLearning = motion / kMotionThreshold >= r;\<close>
  The draw \<open>u\<close> of the generator is an argument.
\<close>

definition isLearning :: "real \<Rightarrow> real \<Rightarrow> bool" where
  "isLearning motion u = (let r = u * u in motion / kMotionThreshold \<ge> r)"

subsection \<open>The object and the state of the learning thread\<close>

text \<open>
  The fields of \<open>class VisualMemory\<close> that the code below uses. \<open>learnFlags\<close> is a
  \<open>std::bitset\<close> of \<open>CameraSampler8Q::kSamples\<close> bits, indexed only by the sample
  counter of the sweep; \<open>mappedMemory\<close> is the address \<open>mmap\<close> returned;
  \<open>learnThread\<close> tells whether \<open>start\<close> created the learning thread.
\<close>

record VisualMemory =
  learnFlags :: "nat \<Rightarrow> bool"
  mappedMemory :: "64 word"
  mappedMemorySize :: nat
  recallBuffer :: "memory_t list"
  recallAccumulator :: "memory_t list"
  recallTolerance :: "memory_t list"
  denseToSparsePixelIndex :: "nat list"
  learnThread :: bool

text \<open>
  The learning thread also has the cells of the mapped region (\<open>memoryBuffer\<close>) and
  the local \<open>recallTotal\<close> of the current sweep.
\<close>

record worker = VisualMemory +
  memoryBuffer :: "Cell list"
  recallTotal :: real

text \<open>
  An access outside a vector or outside the mapped region is undefined behaviour in C++.
  It is a value here: the sweep stops with the fault and the index that caused it.
\<close>

datatype fault =
    MemoryOutOfBounds nat
  | AccumulatorOutOfBounds nat
  | RecallBufferOutOfBounds nat
  | ImageOutOfBounds int
  | IntegerDivisionByZero
  | FloatToIntUndefined

text \<open>
  What one sweep reads from outside: \<open>sobel.motion[sampleIndex]\<close>,
  \<open>luminance.buffer[sampleIndex]\<close>, the value \<open>prng.uniform()\<close> returns in the
  iteration of that sample, and what \<open>tap->get(LatencyTimer::kExpectedDelay)\<close> returns
  there (\<open>None\<close> for the null pointer). \<open>EffectTap::Frame\<close> is declared outside
  this file; its \<open>colors\<close> are taken as a lookup by sparse pixel index.
\<close>

record Frame =
  colors :: "nat \<Rightarrow> Vec3"

record sweep_input =
  sobel_motion :: "nat \<Rightarrow> real"
  luminance_buffer :: "nat \<Rightarrow> 8 word"
  prng_uniform :: "nat \<Rightarrow> real"
  tap_get :: "nat \<Rightarrow> Frame option"

subsection \<open>The pixel index of start\<close>

text \<open>
  \<open>pixelInfo\<close> is the list of \<open>pixel.isMapped()\<close> for every pixel; the loop pushes
  the index of every mapped pixel, in order.
\<close>

definition buildDenseToSparse :: "bool list \<Rightarrow> nat list" where
  "buildDenseToSparse pixelInfo = filter (\<lambda>i. pixelInfo ! i) [0..<length pixelInfo]"

text \<open>\<open>std::vector::resize\<close>: keeps the leading elements, fills with zero.\<close>

definition resize :: "memory_t list \<Rightarrow> nat \<Rightarrow> memory_t list" where
  "resize xs n = take n xs @ replicate (n - length xs) 0"

subsection \<open>learnWorker: one sweep\<close>

text \<open>
  The body of the loop over \<open>denseIndex\<close>. The cell is \<open>memoryBuffer[sampleIndex *
  denseSize + denseIndex]\<close>; the accumulator is written at \<open>sparseIndex\<close>, as in the
  source. Indices are natural numbers (the 32 bit wrap-around of \<open>unsigned\<close> is left
  out).
\<close>

definition learnPixel :: "real \<Rightarrow> 8 word \<Rightarrow> Frame \<Rightarrow> nat \<Rightarrow> nat \<Rightarrow> worker \<Rightarrow> fault + worker" where
  "learnPixel motion luma effectFrame sampleIndex denseIndex w =
     (let denseSize = length (denseToSparsePixelIndex w);
          sparseIndex = denseToSparsePixelIndex w ! denseIndex;
          pixel = colors effectFrame sparseIndex;
          c = sampleIndex * denseSize + denseIndex
      in if \<not> c < length (memoryBuffer w) then Inl (MemoryOutOfBounds c)
         else
           let reinforcement = reinforcementFunction (uint luma) pixel;
               state = updateCell reinforcement (memoryBuffer w ! c);
               w1 = w\<lparr>memoryBuffer := (memoryBuffer w)[c := state]\<rparr>;
               acc = motion * longTerm state
           in if \<not> sparseIndex < length (recallAccumulator w1)
              then Inl (AccumulatorOutOfBounds sparseIndex)
              else Inr (w1\<lparr>recallAccumulator :=
                            (recallAccumulator w1)[sparseIndex := recallAccumulator w1 ! sparseIndex + acc],
                          recallTotal := recallTotal w1 + acc\<rparr>))"

fun learnPixels :: "real \<Rightarrow> 8 word \<Rightarrow> Frame \<Rightarrow> nat \<Rightarrow> nat list \<Rightarrow> worker \<Rightarrow> fault + worker" where
  "learnPixels motion luma effectFrame sampleIndex [] w = Inr w"
| "learnPixels motion luma effectFrame sampleIndex (denseIndex # rest) w =
     (case learnPixel motion luma effectFrame sampleIndex denseIndex w of
        Inl e \<Rightarrow> Inl e
      | Inr w' \<Rightarrow> learnPixels motion luma effectFrame sampleIndex rest w')"

text \<open>
  The body of the loop over \<open>sampleIndex\<close>: the gate, the learn flag, the delayed frame
  (a missing frame skips the sample after \<open>usleep\<close>), then every dense pixel.
\<close>

definition learnSample :: "sweep_input \<Rightarrow> nat \<Rightarrow> worker \<Rightarrow> fault + worker" where
  "learnSample inp sampleIndex w =
     (let motion = sobel_motion inp sampleIndex;
          luma = luminance_buffer inp sampleIndex;
          learning = isLearning motion (prng_uniform inp sampleIndex);
          w1 = w\<lparr>learnFlags := (learnFlags w)(sampleIndex := learning)\<rparr>
      in if \<not> learning then Inr w1
         else case tap_get inp sampleIndex of
                None \<Rightarrow> Inr w1
              | Some effectFrame \<Rightarrow>
                  learnPixels motion luma effectFrame sampleIndex
                    [0..<length (denseToSparsePixelIndex w1)] w1)"

fun learnSamples :: "sweep_input \<Rightarrow> nat list \<Rightarrow> worker \<Rightarrow> fault + worker" where
  "learnSamples inp [] w = Inr w"
| "learnSamples inp (sampleIndex # rest) w =
     (case learnSample inp sampleIndex w of
        Inl e \<Rightarrow> Inl e
      | Inr w' \<Rightarrow> learnSamples inp rest w')"

text \<open>The update of \<open>recallBuffer\<close> at the end of the sweep.\<close>

definition publishPixel :: "real \<Rightarrow> nat \<Rightarrow> worker \<Rightarrow> fault + worker" where
  "publishPixel recallScale denseIndex w =
     (let sparseIndex = denseToSparsePixelIndex w ! denseIndex
      in if \<not> denseIndex < length (recallAccumulator w)
         then Inl (AccumulatorOutOfBounds denseIndex)
         else if \<not> sparseIndex < length (recallBuffer w)
         then Inl (RecallBufferOutOfBounds sparseIndex)
         else Inr (w\<lparr>recallBuffer :=
                (recallBuffer w)[sparseIndex := recallAccumulator w ! denseIndex * recallScale - 1]\<rparr>))"

fun publishPixels :: "real \<Rightarrow> nat list \<Rightarrow> worker \<Rightarrow> fault + worker" where
  "publishPixels recallScale [] w = Inr w"
| "publishPixels recallScale (denseIndex # rest) w =
     (case publishPixel recallScale denseIndex w of
        Inl e \<Rightarrow> Inl e
      | Inr w' \<Rightarrow> publishPixels recallScale rest w')"

definition publish :: "worker \<Rightarrow> fault + worker" where
  "publish w =
     (let denseSize = length (denseToSparsePixelIndex w);
          recallScale = (if recallTotal w \<noteq> 0 then real denseSize / recallTotal w else 0)
      in publishPixels recallScale [0..<denseSize] w)"

text \<open>
  The part of one iteration of \<open>while (true)\<close> before the publish step: the reset of
  the accumulator and of \<open>recallTotal\<close>, and the loop over the samples.
\<close>

definition sweepSamples :: "nat \<Rightarrow> sweep_input \<Rightarrow> worker \<Rightarrow> fault + worker" where
  "sweepSamples kSamples inp w =
     learnSamples inp [0..<kSamples]
       (w\<lparr>recallTotal := 0,
          recallAccumulator := replicate (length (recallAccumulator w)) 0\<rparr>)"

text \<open>
  One iteration of \<open>while (true)\<close> (the performance counters print to stderr only).
  The loop itself never ends; every statement below is about one iteration, from any
  state of the worker.
\<close>

definition sweep :: "nat \<Rightarrow> sweep_input \<Rightarrow> worker \<Rightarrow> fault + worker" where
  "sweep kSamples inp w =
     (case sweepSamples kSamples inp w of
        Inl e \<Rightarrow> Inl e
      | Inr w' \<Rightarrow> publish w')"

text \<open>
  What \<open>start\<close> sets up and no statement of the sweep changes: the accumulator has
  one entry per dense pixel, the dense index has no duplicates, and every sparse index
  lies inside the recall buffer.
\<close>

definition wellFormed :: "'a VisualMemory_scheme \<Rightarrow> bool" where
  "wellFormed w =
     (length (recallAccumulator w) = length (denseToSparsePixelIndex w) \<and>
      distinct (denseToSparsePixelIndex w) \<and>
      list_all (\<lambda>sparseIndex. sparseIndex < length (recallBuffer w))
        (denseToSparsePixelIndex w))"

subsection \<open>start\<close>

text \<open>
  The operating system is outside the program: the values \<open>open\<close>, \<open>ftruncate\<close> and
  \<open>mmap\<close> return are arguments. By POSIX, \<open>open\<close> returns a negative value on
  failure and with \<open>O_CREAT\<close> creates a missing file (empty); \<open>ftruncate\<close> returns
  non-zero on failure and otherwise sets the length of the file; \<open>mmap\<close> returns
  \<open>MAP_FAILED\<close>, which is \<open>(void *) -1\<close>, on failure. The backing file is its
  length in bytes, \<open>None\<close> when it does not exist.
\<close>

record os_calls =
  open_returns :: int
  ftruncate_returns :: int
  mmap_returns :: "64 word"

definition MAP_FAILED :: "64 word" where
  "MAP_FAILED = - 1"

text \<open>What goes to stderr: the message of a \<open>perror\<close>, or the format of a \<open>fprintf\<close>.\<close>

datatype report = Perror string | Fprintf string

record started =
  self :: VisualMemory
  stderr :: "report list"
  backingFile :: "nat option"

text \<open>
  The object before \<open>start\<close>: empty vectors and a cleared bitset. The two pointers are
  not initialised by the class; they are taken as null and as no thread.
\<close>

definition newVisualMemory :: VisualMemory where
  "newVisualMemory =
     \<lparr>learnFlags = (\<lambda>_. False), mappedMemory = 0, mappedMemorySize = 0,
      recallBuffer = [], recallAccumulator = [], recallTolerance = [],
      denseToSparsePixelIndex = [], learnThread = False\<rparr>"

text \<open>
  \<open>cells\<close> is \<open>unsigned\<close>, so the product wraps at 32 bits; \<open>sizeof(Cell)\<close> is 16
  and the length of the file is computed in \<open>size_t\<close>.
\<close>

definition start :: "nat \<Rightarrow> os_calls \<Rightarrow> nat option \<Rightarrow> bool list \<Rightarrow> VisualMemory \<Rightarrow> started" where
  "start kSamples os file pixelInfo this =
     (let d2s = buildDenseToSparse pixelInfo;
          denseSize = length d2s;
          cells = (kSamples * denseSize) mod 2 ^ 32;
          this1 = this\<lparr>denseToSparsePixelIndex := d2s,
                       recallBuffer := resize (recallBuffer this) (length pixelInfo),
                       recallAccumulator := resize (recallAccumulator this) denseSize,
                       recallTolerance := replicate denseSize 1\<rparr>;
          log1 = [Fprintf ''vismem: %d camera samples * %d LED pixels = %d cells'']
      in if open_returns os < 0
         then \<lparr>self = this1,
               stderr = log1 @ [Perror ''vismem: Error opening mapping file''],
               backingFile = file\<rparr>
         else
           let file1 = (case file of None \<Rightarrow> Some 0 | Some n \<Rightarrow> Some n)
           in if ftruncate_returns os \<noteq> 0
              then \<lparr>self = this1,
                    stderr = log1 @ [Perror ''vismem: Error setting length of mapping file''],
                    backingFile = file1\<rparr>
              else
                let file2 = Some (cells * 16);
                    this2 = this1\<lparr>mappedMemorySize := cells, mappedMemory := mmap_returns os\<rparr>
                in if mappedMemory this2 = 0
                   then \<lparr>self = this2,
                         stderr = log1 @ [Perror ''vismem: Error mapping memory file''],
                         backingFile = file2\<rparr>
                   else \<lparr>self = this2\<lparr>learnThread := True\<rparr>,
                         stderr = log1 @ [Fprintf ''vismem: Mapped %d cells at %p''],
                         backingFile = file2\<rparr>)"

subsection \<open>debug\<close>

text \<open>
  The snapshot computes \<open>cellScale = 1.0 / cellMax\<close> with no test of \<open>cellMax\<close>, so
  its values are IEEE doubles with the special values written out: a finite value (exact;
  rounding, overflow and the sign of zero are left out), the two infinities and NaN. The
  cells of the grid are finite.
\<close>

datatype double = Finite real | PosInf | NegInf | NaN

definition signedInf :: "real \<Rightarrow> double" where
  "signedInf s = (if s = 0 then NaN else if 0 < s then PosInf else NegInf)"

fun signOf :: "double \<Rightarrow> real" where
  "signOf (Finite a) = sgn a"
| "signOf PosInf = 1"
| "signOf NegInf = - 1"
| "signOf NaN = 0"

text \<open>The comparison \<open><\<close> is false whenever an operand is NaN.\<close>

fun dless :: "double \<Rightarrow> double \<Rightarrow> bool" where
  "dless (Finite a) (Finite b) = (a < b)"
| "dless NaN _ = False"
| "dless _ NaN = False"
| "dless PosInf _ = False"
| "dless _ PosInf = True"
| "dless _ NegInf = False"
| "dless NegInf _ = True"

fun dmul :: "double \<Rightarrow> double \<Rightarrow> double" where
  "dmul (Finite a) (Finite b) = Finite (a * b)"
| "dmul NaN _ = NaN"
| "dmul _ NaN = NaN"
| "dmul a b = signedInf (signOf a * signOf b)"

fun dadd :: "double \<Rightarrow> double \<Rightarrow> double" where
  "dadd (Finite a) (Finite b) = Finite (a + b)"
| "dadd NaN _ = NaN"
| "dadd _ NaN = NaN"
| "dadd PosInf NegInf = NaN"
| "dadd NegInf PosInf = NaN"
| "dadd PosInf _ = PosInf"
| "dadd _ PosInf = PosInf"
| "dadd NegInf _ = NegInf"
| "dadd _ NegInf = NegInf"

text \<open>Division: a finite non-zero value over zero is an infinity, zero over zero is NaN.\<close>

fun ddiv :: "double \<Rightarrow> double \<Rightarrow> double" where
  "ddiv (Finite a) (Finite b) = (if b = 0 then signedInf a else Finite (a / b))"
| "ddiv NaN _ = NaN"
| "ddiv _ NaN = NaN"
| "ddiv (Finite a) _ = Finite 0"
| "ddiv a (Finite b) = signedInf (signOf a * (if 0 \<le> b then 1 else - 1))"
| "ddiv _ _ = NaN"

text \<open>
  \<open>std::max(a, b)\<close> is \<open>(a < b) ? b : a\<close> and \<open>std::min(a, b)\<close> is
  \<open>(b < a) ? b : a\<close>.
\<close>

definition std_max :: "double \<Rightarrow> double \<Rightarrow> double" where
  "std_max a b = (if dless a b then b else a)"

definition std_min :: "double \<Rightarrow> double \<Rightarrow> double" where
  "std_min a b = (if dless b a then b else a)"

text \<open>The conversion to \<open>int\<close> truncates; it is undefined for NaN and the infinities.\<close>

fun toInt :: "double \<Rightarrow> fault + int" where
  "toInt (Finite x) = Inr (if 0 \<le> x then \<lfloor>x\<rfloor> else \<lceil>x\<rceil>)"
| "toInt _ = Inl FloatToIntUndefined"

text \<open>
  \<open>memory_t s = v * cellScale; int i = std::min<memory_t>(255.5f, s*s*s*s * 255.0f + 0.5f)\<close>
\<close>

definition channel :: "double \<Rightarrow> memory_t \<Rightarrow> fault + int" where
  "channel cellScale v =
     (let s = dmul (Finite v) cellScale
      in toInt (std_min (Finite (511 / 2))
           (dadd (dmul (dmul (dmul (dmul s s) s) s) (Finite 255)) (Finite (1 / 2)))))"

text \<open>
  The constants and the two block functions of \<open>CameraSampler8Q\<close> are declared outside
  this file; they are arguments.
\<close>

record CameraSampler8Q =
  cam_kSamples :: nat
  cam_kBlocksWide :: int
  cam_kBlocksHigh :: int
  cam_blockX :: "nat \<Rightarrow> int"
  cam_blockY :: "nat \<Rightarrow> int"

definition drawCell ::
  "CameraSampler8Q \<Rightarrow> nat \<Rightarrow> int \<Rightarrow> int \<Rightarrow> double \<Rightarrow> Cell list \<Rightarrow> nat \<times> nat \<Rightarrow> 8 word list
     \<Rightarrow> fault + 8 word list" where
  "drawCell cam denseSize ledsWide width cellScale cells sl img =
     (let sample = fst sl;
          led = snd sl;
          sx = cam_blockX cam sample;
          sy = cam_blockY cam sample;
          x = sx + (int led mod ledsWide) * cam_kBlocksWide cam;
          y = sy + (int led div ledsWide) * cam_kBlocksHigh cam;
          c = sample * denseSize + led;
          p = 3 * (y * width + x)
      in if \<not> c < length cells then Inl (MemoryOutOfBounds c)
         else if p < 0 \<or> int (length img) < p + 3 then Inl (ImageOutOfBounds p)
         else
           case channel cellScale (shortTerm (cells ! c)) of
             Inl e \<Rightarrow> Inl e
           | Inr shortTermI \<Rightarrow>
               (case channel cellScale (longTerm (cells ! c)) of
                  Inl e \<Rightarrow> Inl e
                | Inr longTermI \<Rightarrow>
                    Inr (img[nat p := word_of_int shortTermI,
                               nat p + 1 := word_of_int longTermI,
                               nat p + 2 := word_of_int longTermI])))"

fun drawCells ::
  "CameraSampler8Q \<Rightarrow> nat \<Rightarrow> int \<Rightarrow> int \<Rightarrow> double \<Rightarrow> Cell list \<Rightarrow> (nat \<times> nat) list \<Rightarrow> 8 word list
     \<Rightarrow> fault + 8 word list" where
  "drawCells cam denseSize ledsWide width cellScale cells [] img = Inr img"
| "drawCells cam denseSize ledsWide width cellScale cells (sl # rest) img =
     (case drawCell cam denseSize ledsWide width cellScale cells sl img of
        Inl e \<Rightarrow> Inl e
      | Inr img' \<Rightarrow> drawCells cam denseSize ledsWide width cellScale cells rest img')"

text \<open>
  The image \<open>debug\<close> hands to the PNG encoder. \<open>cells\<close> (\<open>memoryBuffer\<close> in the source) holds the
  \<open>mappedMemorySize\<close> cells of the mapped region; \<open>ledsWide\<close> is the ceiling of the
  square root; the two loops run over the samples and, for each, over the dense pixels.
\<close>

definition debug :: "CameraSampler8Q \<Rightarrow> nat list \<Rightarrow> Cell list \<Rightarrow> fault + 8 word list" where
  "debug cam denseToSparse cells =
     (let denseSize = length denseToSparse;
          ledsWide = \<lceil>sqrt (real denseSize)\<rceil>;
          width = ledsWide * cam_kBlocksWide cam
      in if ledsWide = 0 then Inl IntegerDivisionByZero
         else
           let ledsHigh = (int denseSize + ledsWide - 1) div ledsWide;
               height = ledsHigh * cam_kBlocksHigh cam;
               img = replicate (nat (width * height * 3)) 0
           in case cells of
                [] \<Rightarrow> Inl (MemoryOutOfBounds 0)
              | first # rest \<Rightarrow>
                  let cellMax = foldl (\<lambda>m cell. std_max m (Finite (longTerm cell)))
                                  (Finite (longTerm first)) rest;
                      cellScale = ddiv (Finite 1) cellMax
                  in drawCells cam denseSize ledsWide width cellScale cells
                       (List.product [0..<cam_kSamples cam] [0..<denseSize]) img)"

subsection \<open>The update of recallBuffer over IEEE doubles\<close>

text \<open>
  The lines of \<open>learnWorker\<close> under \<open>Update recallBuffer\<close> once more, on doubles
  with the special values: \<open>sparseOf\<close> is \<open>denseToSparsePixelIndex\<close>,
  \<open>accumulator\<close> is \<open>recallAccumulator\<close>, \<open>recallTot\<close> is \<open>recallTotal\<close>
  and \<open>buffer\<close> is \<open>recallBuffer\<close> when the loop over the samples has ended.
  \<open>truthy\<close> is the conversion to \<open>bool\<close> in \<open>recallTotal ? a : b\<close>: every value
  but zero is true, NaN and the infinities included.
\<close>

definition truthy :: "double \<Rightarrow> bool" where
  "truthy x = (case x of Finite v \<Rightarrow> v \<noteq> 0 | PosInf \<Rightarrow> True | NegInf \<Rightarrow> True | NaN \<Rightarrow> True)"

text \<open>\<open>double recallScale = recallTotal ? denseSize / recallTotal : 0;\<close>\<close>

definition recallScaleIEEE :: "nat \<Rightarrow> double \<Rightarrow> double" where
  "recallScaleIEEE denseSize recallTot =
     (if truthy recallTot then ddiv (Finite (real denseSize)) recallTot else Finite 0)"

text \<open>
  \<open>recallBuffer[sparseIndex] = recallAccumulator[denseIndex] * recallScale - 1.0;\<close>
\<close>

definition publishPixelIEEE ::
  "nat list \<Rightarrow> double list \<Rightarrow> double \<Rightarrow> nat \<Rightarrow> double list \<Rightarrow> fault + double list" where
  "publishPixelIEEE sparseOf accumulator recallScale denseIndex buffer =
     (let sparseIndex = sparseOf ! denseIndex
      in if \<not> denseIndex < length accumulator
         then Inl (AccumulatorOutOfBounds denseIndex)
         else if \<not> sparseIndex < length buffer
         then Inl (RecallBufferOutOfBounds sparseIndex)
         else Inr (buffer[sparseIndex :=
                dadd (dmul (accumulator ! denseIndex) recallScale) (Finite (- 1))]))"

fun publishPixelsIEEE ::
  "nat list \<Rightarrow> double list \<Rightarrow> double \<Rightarrow> nat list \<Rightarrow> double list \<Rightarrow> fault + double list" where
  "publishPixelsIEEE sparseOf accumulator recallScale [] buffer = Inr buffer"
| "publishPixelsIEEE sparseOf accumulator recallScale (denseIndex # rest) buffer =
     (case publishPixelIEEE sparseOf accumulator recallScale denseIndex buffer of
        Inl e \<Rightarrow> Inl e
      | Inr buffer' \<Rightarrow> publishPixelsIEEE sparseOf accumulator recallScale rest buffer')"

definition publishIEEE ::
  "nat list \<Rightarrow> double list \<Rightarrow> double \<Rightarrow> double list \<Rightarrow> fault + double list" where
  "publishIEEE sparseOf accumulator recallTot buffer =
     (let denseSize = length sparseOf;
          recallScale = recallScaleIEEE denseSize recallTot
      in publishPixelsIEEE sparseOf accumulator recallScale [0..<denseSize] buffer)"

text \<open>A double that is neither an infinity nor NaN.\<close>

definition isFinite :: "double \<Rightarrow> bool" where
  "isFinite x = (case x of Finite v \<Rightarrow> True | PosInf \<Rightarrow> False | NegInf \<Rightarrow> False | NaN \<Rightarrow> False)"

text \<open>
  \<open>learnThreadFunc\<close> hands the object to \<open>learnWorker\<close>, whose
  \<open>memoryBuffer\<close> is \<open>mappedMemory\<close>: the state the learning thread starts from is
  the object, the cells of the mapped region, and \<open>recallTotal\<close> at zero.
\<close>

definition learnThreadFunc :: "VisualMemory \<Rightarrow> Cell list \<Rightarrow> worker" where
  "learnThreadFunc this cells =
     \<lparr>learnFlags = learnFlags this, mappedMemory = mappedMemory this,
      mappedMemorySize = mappedMemorySize this, recallBuffer = recallBuffer this,
      recallAccumulator = recallAccumulator this, recallTolerance = recallTolerance this,
      denseToSparsePixelIndex = denseToSparsePixelIndex this, learnThread = learnThread this,
      memoryBuffer = cells, recallTotal = 0\<rparr>"

subsection \<open>Concrete inputs\<close>

text \<open>
  Inputs for the evaluations below. \<open>freshWorker\<close> is the worker after a successful
  \<open>start\<close> on a missing file: the new file is filled with zero cells.
  \<open>steadyInput\<close> gives every sample the same motion, the luminance 255, the same draw
  and the same delayed frame; \<open>white\<close> is the frame with every pixel at (1, 1, 1).
\<close>

definition freshWorker :: "nat \<Rightarrow> bool list \<Rightarrow> worker" where
  "freshWorker kSamples pixelInfo =
     (let this = self (start kSamples
                   \<lparr>open_returns = 3, ftruncate_returns = 0, mmap_returns = 4096\<rparr>
                   None pixelInfo newVisualMemory)
      in learnThreadFunc this
           (replicate (mappedMemorySize this) \<lparr>shortTerm = 0, longTerm = 0\<rparr>))"

definition steadyInput :: "real \<Rightarrow> real \<Rightarrow> Frame option \<Rightarrow> sweep_input" where
  "steadyInput m u frame =
     \<lparr>sobel_motion = (\<lambda>_. m), luminance_buffer = (\<lambda>_. 255),
      prng_uniform = (\<lambda>_. u), tap_get = (\<lambda>_. frame)\<rparr>"

definition white :: Frame where
  "white = \<lparr>colors = (\<lambda>_. (1, 1, 1))\<rparr>"

text \<open>
  \<open>mixedDraws\<close>: no motion anywhere, the draw 0 for sample 0 and 1/2 for every other
  sample, the white frame.
\<close>

definition mixedDraws :: sweep_input where
  "mixedDraws =
     \<lparr>sobel_motion = (\<lambda>_. 0), luminance_buffer = (\<lambda>_. 255),
      prng_uniform = (\<lambda>sampleIndex. if sampleIndex = 0 then 0 else 1 / 2),
      tap_get = (\<lambda>_. Some white)\<rparr>"

text \<open>
  \<open>answeringCalls addr\<close>: \<open>open\<close> and \<open>ftruncate\<close> succeed and \<open>mmap\<close> returns
  \<open>addr\<close>. \<open>stripSampler\<close>: two samples side by side, each a block of one pixel.
\<close>

definition answeringCalls :: "64 word \<Rightarrow> os_calls" where
  "answeringCalls addr = \<lparr>open_returns = 3, ftruncate_returns = 0, mmap_returns = addr\<rparr>"

definition stripSampler :: CameraSampler8Q where
  "stripSampler =
     \<lparr>cam_kSamples = 2, cam_kBlocksWide = 2, cam_kBlocksHigh = 1,
      cam_blockX = (\<lambda>sample. int sample), cam_blockY = (\<lambda>_. 0)\<rparr>"

section \<open>Properties of the cell update\<close>

lemma updateCell_shortTerm:
  "shortTerm (updateCell x c) = shortTerm c * (9 / 10) + x"
  by (simp add: updateCell_def Let_def kShortTermPermeability_def algebra_simps)


lemma shortTerm_iterate:
  "shortTerm ((updateCell x ^^ n) c) - 10 * x = (9 / 10) ^ n * (shortTerm c - 10 * x)"
proof (induction n)
  case 0
  show ?case by simp
next
  case (Suc n)
  have "shortTerm ((updateCell x ^^ Suc n) c) - 10 * x
      = (9 / 10) * (shortTerm ((updateCell x ^^ n) c) - 10 * x)"
    by (simp add: updateCell_shortTerm)
  with Suc show ?case by simp
qed

lemma pow_small: "(9 / 10 :: real) ^ 1000 \<le> 1 / 10 ^ 45"
proof -
  have a: "(9 / 10 :: real) ^ 22 \<le> 1 / 10" by (simp add: power_divide)
  have e: "(1000::nat) = 22 * 45 + 10" by simp
  have "(9 / 10 :: real) ^ 1000 = ((9 / 10) ^ 22) ^ 45 * (9 / 10) ^ 10"
    by (simp only: e power_add power_mult)
  also have "\<dots> \<le> (1 / 10) ^ 45 * 1"
  proof (rule mult_mono)
    show "((9 / 10 :: real) ^ 22) ^ 45 \<le> (1 / 10) ^ 45"
      by (rule power_mono [OF a]) simp
    show "(9 / 10 :: real) ^ 10 \<le> 1" by (rule power_le_one) simp_all
  qed simp_all
  finally show ?thesis by (simp only: power_divide power_one mult_1_right)
qed

lemma shortTerm_limit:
  "(\<lambda>n. shortTerm ((updateCell x ^^ n) c)) \<longlonglongrightarrow> 10 * x"
proof -
  have "(\<lambda>n. (9 / 10 :: real) ^ n) \<longlonglongrightarrow> 0"
    by (rule LIMSEQ_realpow_zero) simp_all
  then have "(\<lambda>n. (9 / 10) ^ n * (shortTerm c - 10 * x) + 10 * x) \<longlonglongrightarrow> 0 * (shortTerm c - 10 * x) + 10 * x"
    by (intro tendsto_add tendsto_mult tendsto_const)
  moreover have "\<And>n. shortTerm ((updateCell x ^^ n) c) = (9 / 10) ^ n * (shortTerm c - 10 * x) + 10 * x"
    using shortTerm_iterate [where x = x and c = c] by (simp add: algebra_simps)
  ultimately show ?thesis by simp
qed

lemma shortTerm_example:
  assumes "\<bar>shortTerm c - 5\<bar> \<le> 10 ^ 40"
  shows "\<bar>shortTerm ((updateCell (1 / 2) ^^ 1000) c) - 5\<bar> \<le> 5 / 100"
proof -
  have t: "10 * (1 / 2 :: real) = 5" by simp
  have p: "0 \<le> (9 / 10 :: real) ^ 1000" by (rule zero_le_power) simp
  have "shortTerm ((updateCell (1 / 2) ^^ 1000) c) - 5 = (9 / 10) ^ 1000 * (shortTerm c - 5)"
    using shortTerm_iterate [where x = "1 / 2" and n = 1000 and c = c] unfolding t .
  then have "\<bar>shortTerm ((updateCell (1 / 2) ^^ 1000) c) - 5\<bar> = (9 / 10) ^ 1000 * \<bar>shortTerm c - 5\<bar>"
    by (simp only: abs_mult abs_of_nonneg [OF p])
  also have "\<dots> \<le> (1 / 10 ^ 45) * 10 ^ 40"
    by (rule mult_mono [OF pow_small assms]) simp_all
  also have "\<dots> \<le> 5 / 100" by simp
  finally show ?thesis .
qed




lemma cubic_expands:
  fixes d :: real
  assumes "20000 < d\<^sup>2"
  shows "\<bar>d\<bar> < \<bar>d * (1 - d\<^sup>2 / 10000)\<bar>"
proof -
  have "d \<noteq> 0" using assms by auto
  have "1 < \<bar>1 - d\<^sup>2 / 10000\<bar>" using assms by (simp add: abs_if)
  then have "\<bar>d\<bar> * 1 < \<bar>d\<bar> * \<bar>1 - d\<^sup>2 / 10000\<bar>"
    using \<open>d \<noteq> 0\<close> by (intro mult_strict_left_mono) simp_all
  then show ?thesis by (simp add: abs_mult)
qed

section \<open>Properties of the gate\<close>

lemma isLearning_above:
  assumes "kMotionThreshold \<le> m" "0 \<le> u" "u < 1"
  shows "isLearning m u"
proof -
  have "u * u \<le> 1 * 1" using assms by (intro mult_mono) simp_all
  moreover have "1 \<le> m / kMotionThreshold" using assms by (simp add: kMotionThreshold_def)
  ultimately show ?thesis by (simp add: isLearning_def Let_def)
qed

section \<open>Properties of the sweep\<close>

lemma isLearning_zero_motion: "isLearning 0 u \<longleftrightarrow> u = 0"
  by (auto simp: isLearning_def Let_def mult_le_0_iff)

lemma learnPixel_keeps:
  assumes "learnPixel m l f s d w = Inr w'"
  shows "denseToSparsePixelIndex w' = denseToSparsePixelIndex w"
    and "recallBuffer w' = recallBuffer w"
    and "learnFlags w' = learnFlags w"
    and "length (recallAccumulator w') = length (recallAccumulator w)"
    and "length (memoryBuffer w') = length (memoryBuffer w)"
  using assms by (auto simp: learnPixel_def Let_def split: if_splits)

lemma learnPixels_keeps:
  assumes "learnPixels m l f s ds w = Inr w'"
  shows "denseToSparsePixelIndex w' = denseToSparsePixelIndex w \<and>
         recallBuffer w' = recallBuffer w \<and>
         learnFlags w' = learnFlags w \<and>
         length (recallAccumulator w') = length (recallAccumulator w) \<and>
         length (memoryBuffer w') = length (memoryBuffer w)"
  using assms
proof (induction ds arbitrary: w)
  case Nil
  then show ?case by simp
next
  case (Cons d ds)
  from Cons.prems obtain w1 where 1: "learnPixel m l f s d w = Inr w1"
    and 2: "learnPixels m l f s ds w1 = Inr w'"
    by (auto split: sum.splits)
  from Cons.IH [OF 2] learnPixel_keeps [OF 1] show ?case by simp
qed

lemma learnSample_keeps:
  assumes "learnSample inp s w = Inr w'"
  shows "denseToSparsePixelIndex w' = denseToSparsePixelIndex w \<and>
         recallBuffer w' = recallBuffer w \<and>
         learnFlags w' = (learnFlags w)(s := isLearning (sobel_motion inp s) (prng_uniform inp s)) \<and>
         length (recallAccumulator w') = length (recallAccumulator w) \<and>
         length (memoryBuffer w') = length (memoryBuffer w)"
  using assms
  by (auto simp: learnSample_def Let_def split: if_splits option.splits dest!: learnPixels_keeps)

lemma learnSamples_keeps:
  assumes "learnSamples inp ss w = Inr w'"
  shows "denseToSparsePixelIndex w' = denseToSparsePixelIndex w \<and>
         recallBuffer w' = recallBuffer w \<and>
         (\<forall>s. learnFlags w' s =
            (if s \<in> set ss then isLearning (sobel_motion inp s) (prng_uniform inp s)
             else learnFlags w s)) \<and>
         length (recallAccumulator w') = length (recallAccumulator w) \<and>
         length (memoryBuffer w') = length (memoryBuffer w)"
  using assms
proof (induction ss arbitrary: w)
  case Nil
  then show ?case by simp
next
  case (Cons s ss)
  from Cons.prems obtain w1 where 1: "learnSample inp s w = Inr w1"
    and 2: "learnSamples inp ss w1 = Inr w'"
    by (auto split: sum.splits)
  from Cons.IH [OF 2] learnSample_keeps [OF 1] show ?case by auto
qed

lemma learnSamples_idle:
  assumes "\<forall>s \<in> set ss. \<not> isLearning (sobel_motion inp s) (prng_uniform inp s)"
  shows "\<exists>f. learnSamples inp ss w = Inr (w\<lparr>learnFlags := f\<rparr>)"
  using assms
proof (induction ss arbitrary: w)
  case Nil
  have "w = w\<lparr>learnFlags := learnFlags w\<rparr>" by simp
  then show ?case by (metis learnSamples.simps(1))
next
  case (Cons s ss)
  then have 1: "learnSample inp s w = Inr (w\<lparr>learnFlags := (learnFlags w)(s := False)\<rparr>)"
    by (simp add: learnSample_def Let_def)
  from Cons obtain f where
    "learnSamples inp ss (w\<lparr>learnFlags := (learnFlags w)(s := False)\<rparr>)
       = Inr (w\<lparr>learnFlags := (learnFlags w)(s := False)\<rparr>\<lparr>learnFlags := f\<rparr>)"
    by (metis list.set_intros(2))
  with 1 show ?case by auto
qed

lemma publishPixel_keeps:
  assumes "publishPixel k d w = Inr w'"
  shows "w' = w\<lparr>recallBuffer := (recallBuffer w)[denseToSparsePixelIndex w ! d :=
            recallAccumulator w ! d * k - 1]\<rparr>"
  using assms by (auto simp: publishPixel_def Let_def split: if_splits)

lemma publishPixels_result:
  assumes "publishPixels k ds w = Inr w'"
  shows "denseToSparsePixelIndex w' = denseToSparsePixelIndex w \<and>
         recallAccumulator w' = recallAccumulator w \<and>
         learnFlags w' = learnFlags w \<and>
         memoryBuffer w' = memoryBuffer w \<and>
         recallTotal w' = recallTotal w \<and>
         length (recallBuffer w') = length (recallBuffer w) \<and>
         (\<forall>p. p \<notin> (\<lambda>d. denseToSparsePixelIndex w ! d) ` set ds \<longrightarrow>
              recallBuffer w' ! p = recallBuffer w ! p) \<and>
         (distinct (map (\<lambda>d. denseToSparsePixelIndex w ! d) ds) \<longrightarrow>
            (\<forall>d \<in> set ds. recallBuffer w' ! (denseToSparsePixelIndex w ! d)
                = recallAccumulator w ! d * k - 1))"
  using assms
proof (induction ds arbitrary: w)
  case Nil
  then show ?case by simp
next
  case (Cons d ds)
  from Cons.prems obtain w1 where 1: "publishPixel k d w = Inr w1"
    and 2: "publishPixels k ds w1 = Inr w'"
    by (auto split: sum.splits)
  have inb: "denseToSparsePixelIndex w ! d < length (recallBuffer w)"
    using 1 by (auto simp: publishPixel_def Let_def split: if_splits)
  note w1 = publishPixel_keeps [OF 1]
  from Cons.IH [OF 2] show ?case
    unfolding w1 using inb by (auto simp: nth_list_update)
qed

lemma publishPixels_runs:
  assumes "\<forall>d \<in> set ds. d < length (recallAccumulator w) \<and>
             denseToSparsePixelIndex w ! d < length (recallBuffer w)"
  shows "\<exists>w'. publishPixels k ds w = Inr w'"
  using assms
proof (induction ds arbitrary: w)
  case Nil
  then show ?case by simp
next
  case (Cons d ds)
  let ?w1 = "w\<lparr>recallBuffer := (recallBuffer w)[denseToSparsePixelIndex w ! d :=
            recallAccumulator w ! d * k - 1]\<rparr>"
  have 1: "publishPixel k d w = Inr ?w1"
    using Cons.prems by (simp add: publishPixel_def Let_def)
  have "\<forall>d \<in> set ds. d < length (recallAccumulator ?w1) \<and>
             denseToSparsePixelIndex ?w1 ! d < length (recallBuffer ?w1)"
    using Cons.prems by simp
  from Cons.IH [OF this] 1 show ?case by simp
qed

lemma sum_list_add_at:
  fixes xs :: "real list"
  shows "i < length xs \<Longrightarrow> sum_list (xs[i := xs ! i + a]) = sum_list xs + a"
proof (induction xs arbitrary: i)
  case Nil
  then show ?case by simp
next
  case (Cons x xs)
  then show ?case by (cases i) simp_all
qed

lemma learnPixel_balance:
  assumes "learnPixel m l f s d w = Inr w'"
  shows "sum_list (recallAccumulator w') - recallTotal w'
       = sum_list (recallAccumulator w) - recallTotal w"
  using assms
  by (auto simp: learnPixel_def Let_def sum_list_add_at split: if_splits)

lemma learnPixels_balance:
  assumes "learnPixels m l f s ds w = Inr w'"
  shows "sum_list (recallAccumulator w') - recallTotal w'
       = sum_list (recallAccumulator w) - recallTotal w"
  using assms
proof (induction ds arbitrary: w)
  case Nil
  then show ?case by simp
next
  case (Cons d ds)
  from Cons.prems obtain w1 where 1: "learnPixel m l f s d w = Inr w1"
    and 2: "learnPixels m l f s ds w1 = Inr w'"
    by (auto split: sum.splits)
  from Cons.IH [OF 2] learnPixel_balance [OF 1] show ?case by simp
qed

lemma learnSample_balance:
  assumes "learnSample inp s w = Inr w'"
  shows "sum_list (recallAccumulator w') - recallTotal w'
       = sum_list (recallAccumulator w) - recallTotal w"
  using assms
  by (auto simp: learnSample_def Let_def split: if_splits option.splits dest!: learnPixels_balance)

lemma learnSamples_balance:
  assumes "learnSamples inp ss w = Inr w'"
  shows "sum_list (recallAccumulator w') - recallTotal w'
       = sum_list (recallAccumulator w) - recallTotal w"
  using assms
proof (induction ss arbitrary: w)
  case Nil
  then show ?case by simp
next
  case (Cons s ss)
  from Cons.prems obtain w1 where 1: "learnSample inp s w = Inr w1"
    and 2: "learnSamples inp ss w1 = Inr w'"
    by (auto split: sum.splits)
  from Cons.IH [OF 2] learnSample_balance [OF 1] show ?case by simp
qed

lemma sweepSamples_balance:
  assumes "sweepSamples kSamples inp w = Inr w1"
  shows "sum_list (recallAccumulator w1) = recallTotal w1"
  using learnSamples_balance [OF assms [unfolded sweepSamples_def]]
  by (simp add: sum_list_replicate)

lemma sweepSamples_keeps:
  assumes "sweepSamples kSamples inp w = Inr w1"
  shows "denseToSparsePixelIndex w1 = denseToSparsePixelIndex w"
    and "recallBuffer w1 = recallBuffer w"
    and "length (recallAccumulator w1) = length (recallAccumulator w)"
    and "length (memoryBuffer w1) = length (memoryBuffer w)"
    and "s < kSamples \<Longrightarrow>
           learnFlags w1 s = isLearning (sobel_motion inp s) (prng_uniform inp s)"
  using learnSamples_keeps [OF assms [unfolded sweepSamples_def]] by simp_all

lemma wellFormed_sweepSamples:
  assumes "wellFormed w" "sweepSamples kSamples inp w = Inr w1"
  shows "wellFormed w1"
  using assms(1) sweepSamples_keeps(1-3) [OF assms(2)] by (simp add: wellFormed_def)

lemma publish_result:
  assumes wf: "wellFormed w"
  shows "\<exists>w'. publish w = Inr w' \<and>
           denseToSparsePixelIndex w' = denseToSparsePixelIndex w \<and>
           recallAccumulator w' = recallAccumulator w \<and>
           learnFlags w' = learnFlags w \<and>
           memoryBuffer w' = memoryBuffer w \<and>
           recallTotal w' = recallTotal w \<and>
           length (recallBuffer w') = length (recallBuffer w) \<and>
           (\<forall>p. p \<notin> set (denseToSparsePixelIndex w) \<longrightarrow>
                recallBuffer w' ! p = recallBuffer w ! p) \<and>
           (\<forall>d < length (denseToSparsePixelIndex w).
              recallBuffer w' ! (denseToSparsePixelIndex w ! d)
                = recallAccumulator w ! d *
                    (if recallTotal w \<noteq> 0
                     then real (length (denseToSparsePixelIndex w)) / recallTotal w else 0) - 1)"
proof -
  let ?n = "length (denseToSparsePixelIndex w)"
  let ?k = "if recallTotal w \<noteq> 0 then real ?n / recallTotal w else 0"
  have inb: "\<forall>d \<in> set [0..<?n]. d < length (recallAccumulator w) \<and>
             denseToSparsePixelIndex w ! d < length (recallBuffer w)"
    using wf by (simp add: wellFormed_def list_all_length)
  from publishPixels_runs [OF inb] obtain w' where w': "publishPixels ?k [0..<?n] w = Inr w'"
    by blast
  have img: "(\<lambda>d. denseToSparsePixelIndex w ! d) ` set [0..<?n] = set (denseToSparsePixelIndex w)"
    by (simp only: set_map [symmetric] map_nth)
  have dist: "distinct (map (\<lambda>d. denseToSparsePixelIndex w ! d) [0..<?n])"
    using wf by (simp add: wellFormed_def map_nth)
  from publishPixels_result [OF w'] img dist w' show ?thesis
    by (auto simp: publish_def Let_def)
qed

lemma fault_free_sweep_mean:
  assumes wf: "wellFormed w"
    and run: "sweep kSamples inp w = Inr w'"
    and nz: "recallTotal w' \<noteq> 0"
  shows "(\<Sum>d < length (denseToSparsePixelIndex w').
            recallBuffer w' ! (denseToSparsePixelIndex w' ! d))
          / real (length (denseToSparsePixelIndex w')) = 0"
proof -
  from run obtain w1 where 1: "sweepSamples kSamples inp w = Inr w1" and 2: "publish w1 = Inr w'"
    by (auto simp: sweep_def split: sum.splits)
  have wf1: "wellFormed w1" by (rule wellFormed_sweepSamples [OF wf 1])
  let ?n = "length (denseToSparsePixelIndex w1)"
  let ?t = "recallTotal w1"
  from publish_result [OF wf1] 2 have
    d: "denseToSparsePixelIndex w' = denseToSparsePixelIndex w1" and
    t: "recallTotal w' = ?t" and
    b: "\<And>d. d < ?n \<Longrightarrow> recallBuffer w' ! (denseToSparsePixelIndex w1 ! d)
                = recallAccumulator w1 ! d * (real ?n / ?t) - 1"
    using nz by auto
  have len: "length (recallAccumulator w1) = ?n" using wf1 by (simp add: wellFormed_def)
  define k where "k = real ?n / ?t"
  have "(\<Sum>d < ?n. recallBuffer w' ! (denseToSparsePixelIndex w1 ! d))
      = (\<Sum>d < ?n. recallAccumulator w1 ! d * k - 1)"
    by (rule sum.cong) (simp_all add: b k_def)
  also have "\<dots> = (\<Sum>d < ?n. recallAccumulator w1 ! d) * k - real ?n"
    by (simp add: sum_subtractf sum_distrib_right)
  also have "(\<Sum>d < ?n. recallAccumulator w1 ! d) = sum_list (recallAccumulator w1)"
    using len by (simp add: sum_list_sum_nth atLeast0LessThan)
  also have "\<dots> = ?t" by (rule sweepSamples_balance [OF 1])
  also have "?t * k - real ?n = 0" using nz t by (simp add: k_def)
  finally show ?thesis unfolding d by simp
qed

text \<open>
  When the dense index is the identity (no unmapped pixel before a mapped one) and the
  grid has one cell per sample and dense pixel, every access of the sweep is in bounds:
  the sweep completes, and its recall buffer has mean 0 over the dense pixels whenever
  \<open>recallTotal\<close> is not 0.
\<close>

lemma wellFormed_sweep:
  assumes "wellFormed w" "sweep kSamples inp w = Inr w'"
  shows "wellFormed w'"
proof -
  from assms(2) obtain w1 where 1: "sweepSamples kSamples inp w = Inr w1" and 2: "publish w1 = Inr w'"
    by (auto simp: sweep_def split: sum.splits)
  have wf1: "wellFormed w1" by (rule wellFormed_sweepSamples [OF assms(1) 1])
  from publish_result [OF wf1] 2 wf1 show ?thesis by (auto simp: wellFormed_def)
qed

lemma cell_index_in_grid:
  fixes s d n k :: nat
  assumes "s < k" "d < n"
  shows "s * n + d < k * n"
proof -
  have "s * n + d < s * n + n" using assms(2) by simp
  also have "\<dots> = Suc s * n" by simp
  also have "\<dots> \<le> k * n" using assms(1) by (intro mult_le_mono1) simp
  finally show ?thesis .
qed

lemma learnPixels_runs:
  assumes "\<forall>d \<in> set ds. s * length (denseToSparsePixelIndex w) + d < length (memoryBuffer w) \<and>
             denseToSparsePixelIndex w ! d < length (recallAccumulator w)"
  shows "\<exists>w'. learnPixels m l f s ds w = Inr w'"
  using assms
proof (induction ds arbitrary: w)
  case Nil
  then show ?case by simp
next
  case (Cons d ds)
  from Cons.prems obtain w1 where 1: "learnPixel m l f s d w = Inr w1"
    by (auto simp: learnPixel_def Let_def)
  note k = learnPixel_keeps [OF 1]
  have "\<forall>d \<in> set ds. s * length (denseToSparsePixelIndex w1) + d < length (memoryBuffer w1) \<and>
             denseToSparsePixelIndex w1 ! d < length (recallAccumulator w1)"
    using Cons.prems by (simp add: k)
  from Cons.IH [OF this] 1 show ?case by simp
qed

lemma learnSample_runs:
  assumes "\<forall>d < length (denseToSparsePixelIndex w).
             s * length (denseToSparsePixelIndex w) + d < length (memoryBuffer w) \<and>
             denseToSparsePixelIndex w ! d < length (recallAccumulator w)"
  shows "\<exists>w'. learnSample inp s w = Inr w'"
proof -
  let ?w1 = "w\<lparr>learnFlags := (learnFlags w)
                (s := isLearning (sobel_motion inp s) (prng_uniform inp s))\<rparr>"
  have "\<forall>d \<in> set [0..<length (denseToSparsePixelIndex ?w1)].
          s * length (denseToSparsePixelIndex ?w1) + d < length (memoryBuffer ?w1) \<and>
          denseToSparsePixelIndex ?w1 ! d < length (recallAccumulator ?w1)"
    using assms by simp
  from learnPixels_runs [OF this] show ?thesis
    by (auto simp: learnSample_def Let_def split: option.splits)
qed

lemma learnSamples_runs:
  assumes "\<forall>s \<in> set ss. \<forall>d < length (denseToSparsePixelIndex w).
             s * length (denseToSparsePixelIndex w) + d < length (memoryBuffer w) \<and>
             denseToSparsePixelIndex w ! d < length (recallAccumulator w)"
  shows "\<exists>w'. learnSamples inp ss w = Inr w'"
  using assms
proof (induction ss arbitrary: w)
  case Nil
  then show ?case by simp
next
  case (Cons s ss)
  from Cons.prems have "\<forall>d < length (denseToSparsePixelIndex w).
             s * length (denseToSparsePixelIndex w) + d < length (memoryBuffer w) \<and>
             denseToSparsePixelIndex w ! d < length (recallAccumulator w)"
    by simp
  from learnSample_runs [OF this] obtain w1 where 1: "learnSample inp s w = Inr w1" by blast
  note k = learnSample_keeps [OF 1]
  have "\<forall>s \<in> set ss. \<forall>d < length (denseToSparsePixelIndex w1).
             s * length (denseToSparsePixelIndex w1) + d < length (memoryBuffer w1) \<and>
             denseToSparsePixelIndex w1 ! d < length (recallAccumulator w1)"
    using Cons.prems by (simp add: k)
  from Cons.IH [OF this] 1 show ?case by simp
qed

lemma sweep_runs_on_dense_mapping:
  assumes wf: "wellFormed w"
      and dense: "\<forall>d < length (denseToSparsePixelIndex w). denseToSparsePixelIndex w ! d = d"
      and grid: "length (memoryBuffer w) = kSamples * length (denseToSparsePixelIndex w)"
  shows "\<exists>w'. sweep kSamples inp w = Inr w'"
proof -
  let ?w0 = "w\<lparr>recallTotal := 0,
          recallAccumulator := replicate (length (recallAccumulator w)) 0\<rparr>"
  have "\<forall>s \<in> set [0..<kSamples]. \<forall>d < length (denseToSparsePixelIndex ?w0).
             s * length (denseToSparsePixelIndex ?w0) + d < length (memoryBuffer ?w0) \<and>
             denseToSparsePixelIndex ?w0 ! d < length (recallAccumulator ?w0)"
    using wf dense grid by (simp add: wellFormed_def cell_index_in_grid)
  from learnSamples_runs [OF this] obtain w1 where
    1: "sweepSamples kSamples inp w = Inr w1"
    by (auto simp: sweepSamples_def)
  have wf1: "wellFormed w1" by (rule wellFormed_sweepSamples [OF wf 1])
  from publish_result [OF wf1] 1 show ?thesis by (auto simp: sweep_def)
qed

lemma all_mapped_is_dense:
  assumes "list_all (\<lambda>b. b) pixelInfo"
  shows "buildDenseToSparse pixelInfo = [0..<length pixelInfo]"
  using assms unfolding buildDenseToSparse_def
  by (simp add: list_all_length filter_id_conv)

lemma dense_mapping_sweep_mean:
  assumes wf: "wellFormed w"
      and dense: "\<forall>d < length (denseToSparsePixelIndex w). denseToSparsePixelIndex w ! d = d"
      and grid: "length (memoryBuffer w) = kSamples * length (denseToSparsePixelIndex w)"
  shows "\<exists>w'. sweep kSamples inp w = Inr w' \<and>
           (recallTotal w' \<noteq> 0 \<longrightarrow>
              (\<Sum>d < length (denseToSparsePixelIndex w').
                  recallBuffer w' ! (denseToSparsePixelIndex w' ! d))
                / real (length (denseToSparsePixelIndex w')) = 0)"
proof -
  from sweep_runs_on_dense_mapping [OF wf dense grid] obtain w' where
    run: "sweep kSamples inp w = Inr w'" by blast
  from fault_free_sweep_mean [OF wf run] run show ?thesis by blast
qed

text \<open>The equations that evaluate a sweep on a concrete input.\<close>

lemmas evaluation =
  freshWorker_def learnThreadFunc_def start_def newVisualMemory_def buildDenseToSparse_def
  resize_def steadyInput_def white_def sweep_def sweepSamples_def learnSample_def learnPixel_def
  publish_def publishPixel_def isLearning_def kMotionThreshold_def Let_def updateCell_def
  reinforcementFunction_def kShortTermPermeability_def kLongTermPermeability_def
  wellFormed_def upt_conv_Cons

lemma publish_keeps_flags:
  assumes "publish w = Inr w'"
  shows "learnFlags w' = learnFlags w"
  using publishPixels_result [OF assms [unfolded publish_def Let_def]] by simp

lemma length_resize: "length (resize xs n) = n"
  unfolding resize_def by (simp add: min_def)

lemma wellFormed_start: "wellFormed (self (start kSamples os file pixelInfo this))"
  by (simp add: start_def Let_def wellFormed_def length_resize buildDenseToSparse_def
      list_all_iff)

section \<open>Properties of the publish step over IEEE doubles\<close>

lemma publishPixelsIEEE_result:
  assumes "\<forall>d \<in> set ds. d < length acc \<and> sp ! d < length buf"
      and "distinct (map (\<lambda>d. sp ! d) ds)"
  shows "\<exists>buf'. publishPixelsIEEE sp acc k ds buf = Inr buf' \<and>
           length buf' = length buf \<and>
           (\<forall>p. p \<notin> (\<lambda>d. sp ! d) ` set ds \<longrightarrow> buf' ! p = buf ! p) \<and>
           (\<forall>d \<in> set ds. buf' ! (sp ! d) = dadd (dmul (acc ! d) k) (Finite (- 1)))"
  using assms
proof (induction ds arbitrary: buf)
  case Nil
  then show ?case by simp
next
  case (Cons d ds)
  let ?b1 = "buf[sp ! d := dadd (dmul (acc ! d) k) (Finite (- 1))]"
  have 1: "publishPixelIEEE sp acc k d buf = Inr ?b1"
    using Cons.prems(1) by (simp add: publishPixelIEEE_def Let_def)
  have a: "\<forall>d \<in> set ds. d < length acc \<and> sp ! d < length ?b1"
    using Cons.prems(1) by simp
  have b: "distinct (map (\<lambda>d. sp ! d) ds)" using Cons.prems(2) by simp
  from Cons.IH [OF a b] obtain buf' where
    r: "publishPixelsIEEE sp acc k ds ?b1 = Inr buf'" and
    l: "length buf' = length ?b1" and
    o: "\<forall>p. p \<notin> (\<lambda>d. sp ! d) ` set ds \<longrightarrow> buf' ! p = ?b1 ! p" and
    i: "\<forall>d \<in> set ds. buf' ! (sp ! d) = dadd (dmul (acc ! d) k) (Finite (- 1))"
    by blast
  have notin: "sp ! d \<notin> (\<lambda>d. sp ! d) ` set ds" using Cons.prems(2) by auto
  have inb: "sp ! d < length buf" using Cons.prems(1) by simp
  have here: "buf' ! (sp ! d) = dadd (dmul (acc ! d) k) (Finite (- 1))"
    using o notin inb by simp
  have others: "\<forall>p. p \<notin> (\<lambda>d. sp ! d) ` set (d # ds) \<longrightarrow> buf' ! p = buf ! p"
    using o by (auto simp: nth_list_update)
  from 1 r l here i others show ?case by simp
qed

lemma times_zero_minus_one:
  "dadd (dmul x (Finite 0)) (Finite (- 1)) = (if isFinite x then Finite (- 1) else NaN)"
  by (cases x) (simp_all add: isFinite_def signedInf_def)

lemma unguarded_division_differs:
  assumes "0 < n"
  shows "ddiv (Finite (real n)) (Finite 0) = PosInf"
    and "dadd (dmul (Finite 0) (ddiv (Finite (real n)) (Finite 0))) (Finite (- 1)) = NaN"
  using assms by (simp_all add: signedInf_def)

lemma publishPixels_refines:
  "publishPixelsIEEE (denseToSparsePixelIndex w) (map Finite (recallAccumulator w)) (Finite k) ds
       (map Finite (recallBuffer w))
     = map_sum id (\<lambda>w'. map Finite (recallBuffer w')) (publishPixels k ds w)"
proof (induction ds arbitrary: w)
  case Nil
  show ?case by simp
next
  case (Cons d ds)
  show ?case
  proof (cases "publishPixel k d w")
    case (Inl e)
    then show ?thesis
      by (auto simp: publishPixel_def publishPixelIEEE_def Let_def split: if_splits)
  next
    case (Inr w1)
    note w1 = publishPixel_keeps [OF Inr]
    have inb: "d < length (recallAccumulator w)"
      "denseToSparsePixelIndex w ! d < length (recallBuffer w)"
      using Inr by (auto simp: publishPixel_def Let_def split: if_splits)
    have "publishPixelIEEE (denseToSparsePixelIndex w) (map Finite (recallAccumulator w))
            (Finite k) d (map Finite (recallBuffer w))
          = Inr (map Finite (recallBuffer w1))"
      using inb by (simp add: publishPixelIEEE_def Let_def w1 map_update)
    moreover have "denseToSparsePixelIndex w1 = denseToSparsePixelIndex w"
      "recallAccumulator w1 = recallAccumulator w"
      by (simp_all add: w1)
    ultimately show ?thesis using Cons.IH [of w1] Inr by simp
  qed
qed

lemma publish_refines:
  "publishIEEE (denseToSparsePixelIndex w) (map Finite (recallAccumulator w))
       (Finite (recallTotal w)) (map Finite (recallBuffer w))
     = map_sum id (\<lambda>w'. map Finite (recallBuffer w')) (publish w)"
proof -
  have "recallScaleIEEE (length (denseToSparsePixelIndex w)) (Finite (recallTotal w))
      = Finite (if recallTotal w \<noteq> 0
                then real (length (denseToSparsePixelIndex w)) / recallTotal w else 0)"
    by (simp add: recallScaleIEEE_def truthy_def)
  then show ?thesis
    by (simp add: publishIEEE_def publish_def Let_def publishPixels_refines)
qed

lemma sweep_zero_total_publishIEEE:
  assumes wf: "wellFormed w"
      and run: "sweepSamples kSamples inp w = Inr w1"
      and zero: "recallTotal w1 = 0"
  shows "\<exists>w'. sweep kSamples inp w = Inr w' \<and>
           publishIEEE (denseToSparsePixelIndex w1) (map Finite (recallAccumulator w1))
             (Finite 0) (map Finite (recallBuffer w1)) = Inr (map Finite (recallBuffer w')) \<and>
           (\<forall>d < length (denseToSparsePixelIndex w').
              recallBuffer w' ! (denseToSparsePixelIndex w' ! d) = - 1)"
proof -
  have wf1: "wellFormed w1" by (rule wellFormed_sweepSamples [OF wf run])
  from publish_result [OF wf1] zero obtain w' where
    p: "publish w1 = Inr w'" and
    d: "denseToSparsePixelIndex w' = denseToSparsePixelIndex w1" and
    m: "\<forall>d < length (denseToSparsePixelIndex w1).
          recallBuffer w' ! (denseToSparsePixelIndex w1 ! d) = - 1"
    by auto
  have s: "sweep kSamples inp w = Inr w'" using run p by (simp add: sweep_def)
  have "publishIEEE (denseToSparsePixelIndex w1) (map Finite (recallAccumulator w1))
             (Finite 0) (map Finite (recallBuffer w1)) = Inr (map Finite (recallBuffer w'))"
    using publish_refines [of w1] p zero by simp
  with s m d show ?thesis by simp
qed

section \<open>The claims about the cell update\<close>





text \<open>
  C8. \<open>x / kShortTermPermeability\<close> is a fixed point of the short term update under
  the constant reinforcement \<open>x\<close>; from any starting value the repeated update
  converges to it, the distance shrinking by the factor \<open>1 - kShortTermPermeability\<close>
  at every update; with \<open>x = 1/2\<close> (and the permeability 1/10 of the source) 1000
  updates land within 1% of 5, from every starting value within \<open>10 ^ 40\<close> of 5.
\<close>

theorem shortTerm_fixed_point:
  "(shortTerm c = x / kShortTermPermeability \<longrightarrow>
       shortTerm c * (1 - kShortTermPermeability) + x = shortTerm c \<and>
       shortTerm (updateCell x c) = shortTerm c)
   \<and> (\<lambda>n. shortTerm ((updateCell x ^^ n) c)) \<longlonglongrightarrow> x / kShortTermPermeability
   \<and> \<bar>shortTerm ((updateCell x ^^ n) c) - x / kShortTermPermeability\<bar>
        = (1 - kShortTermPermeability) ^ n * \<bar>shortTerm c - x / kShortTermPermeability\<bar>
   \<and> (\<bar>shortTerm c - 5\<bar> \<le> 10 ^ 40 \<longrightarrow>
        \<bar>shortTerm ((updateCell (1 / 2) ^^ 1000) c) - (1 / 2) / kShortTermPermeability\<bar>
          \<le> (1 / 100) * ((1 / 2) / kShortTermPermeability))"
proof -
  have p: "x / kShortTermPermeability = 10 * x" "1 - kShortTermPermeability = 9 / 10"
    by (simp_all add: kShortTermPermeability_def)
  have a: "shortTerm c = 10 * x \<longrightarrow> shortTerm c * (9 / 10) + x = shortTerm c \<and>
       shortTerm (updateCell x c) = shortTerm c"
    by (simp add: updateCell_shortTerm)
  have b: "(\<lambda>n. shortTerm ((updateCell x ^^ n) c)) \<longlonglongrightarrow> 10 * x"
    by (rule shortTerm_limit)
  have c: "\<bar>shortTerm ((updateCell x ^^ n) c) - 10 * x\<bar> = (9 / 10) ^ n * \<bar>shortTerm c - 10 * x\<bar>"
    unfolding shortTerm_iterate by (simp add: abs_mult)
  have q: "(1 / 2) / kShortTermPermeability = 5" "(1 / 100) * (5 :: real) = 5 / 100"
    by (simp_all add: kShortTermPermeability_def)
  have d: "\<bar>shortTerm c - 5\<bar> \<le> 10 ^ 40 \<longrightarrow>
        \<bar>shortTerm ((updateCell (1 / 2) ^^ 1000) c) - 5\<bar> \<le> 5 / 100"
    using shortTerm_example [of c] by blast
  from a b c d show ?thesis unfolding p q by blast
qed

text \<open>
  The theorem at the fixed point 5 of the reinforcement 1/2, and from the zero cell
  for the 1000 updates.
\<close>

theorem shortTerm_fixed_point_witness:
  "shortTerm \<lparr>shortTerm = 5, longTerm = 0\<rparr> = (1 / 2) / kShortTermPermeability \<and>
   shortTerm (updateCell (1 / 2) \<lparr>shortTerm = 5, longTerm = 0\<rparr>) = 5 \<and>
   \<bar>shortTerm \<lparr>shortTerm = 0, longTerm = 0\<rparr> - 5\<bar> \<le> 10 ^ 40 \<and>
   \<bar>shortTerm ((updateCell (1 / 2) ^^ 1000) \<lparr>shortTerm = 0, longTerm = 0\<rparr>) - 5\<bar> \<le> 5 / 100"
proof -
  have k: "(1 / 2) / kShortTermPermeability = 5" "(1 / 100) * (5 :: real) = 5 / 100"
    by (simp_all add: kShortTermPermeability_def)
  have h: "\<bar>shortTerm \<lparr>shortTerm = 0, longTerm = 0\<rparr> - 5\<bar> \<le> (10 :: real) ^ 40" by simp
  from shortTerm_fixed_point [of "\<lparr>shortTerm = 5, longTerm = 0\<rparr>" "1 / 2" 0]
  have 1: "shortTerm (updateCell (1 / 2) \<lparr>shortTerm = 5, longTerm = 0\<rparr>) = 5"
    unfolding k by simp
  from shortTerm_fixed_point [of "\<lparr>shortTerm = 0, longTerm = 0\<rparr>" "1 / 2" 0] h
  have 2: "\<bar>shortTerm ((updateCell (1 / 2) ^^ 1000) \<lparr>shortTerm = 0, longTerm = 0\<rparr>) - 5\<bar> \<le> 5 / 100"
    unfolding k by blast
  from 1 2 h show ?thesis unfolding k by simp
qed

section \<open>The claims about the gate and the sweep\<close>

text \<open>
  C9. For a sample whose motion is at least \<open>kMotionThreshold\<close>, the gate
  \<open>motion / kMotionThreshold >= u * u\<close> is true for every draw \<open>u\<close> in [0, 1), and
  the learn flag of that sample is set after every sweep that completes.
\<close>

theorem learning_certain_at_threshold:
  assumes "kMotionThreshold \<le> sobel_motion inp s"
      and "0 \<le> prng_uniform inp s" and "prng_uniform inp s < 1"
  shows "isLearning (sobel_motion inp s) (prng_uniform inp s) \<and>
         (s < kSamples \<and> sweep kSamples inp w = Inr w' \<longrightarrow> learnFlags w' s)"
proof -
  have g: "isLearning (sobel_motion inp s) (prng_uniform inp s)"
    by (rule isLearning_above [OF assms])
  have "learnFlags w' s" if "s < kSamples" "sweep kSamples inp w = Inr w'"
  proof -
    from that(2) obtain w1 where 1: "sweepSamples kSamples inp w = Inr w1"
      and 2: "publish w1 = Inr w'"
      by (auto simp: sweep_def split: sum.splits)
    from sweepSamples_keeps(5) [OF 1 that(1)] g publish_keeps_flags [OF 2]
    show ?thesis by simp
  qed
  with g show ?thesis by blast
qed

text \<open>
  The theorem on one sample with motion 100 and draw 1/2, one mapped pixel and a white
  delayed frame: the sweep completes and the flag of sample 0 is set.
\<close>

theorem learning_certain_at_threshold_witness:
  "kMotionThreshold \<le> sobel_motion (steadyInput 100 (1 / 2) (Some white)) 0 \<and>
   0 \<le> prng_uniform (steadyInput 100 (1 / 2) (Some white)) 0 \<and>
   prng_uniform (steadyInput 100 (1 / 2) (Some white)) 0 < 1 \<and>
   map_sum id (\<lambda>w'. learnFlags w' 0)
     (sweep 1 (steadyInput 100 (1 / 2) (Some white)) (freshWorker 1 [True])) = Inr True"
proof -
  let ?inp = "steadyInput 100 (1 / 2) (Some white)"
  have h: "kMotionThreshold \<le> sobel_motion ?inp 0" "0 \<le> prng_uniform ?inp 0"
    "prng_uniform ?inp 0 < 1"
    by (simp_all add: steadyInput_def kMotionThreshold_def)
  have r: "map_sum id recallBuffer (sweep 1 ?inp (freshWorker 1 [True])) = Inr [0]"
    by (simp add: evaluation)
  then obtain w' where w': "sweep 1 ?inp (freshWorker 1 [True]) = Inr w'"
    by (cases "sweep 1 ?inp (freshWorker 1 [True])") simp_all
  from learning_certain_at_threshold [OF h, of 1 "freshWorker 1 [True]" w'] w'
  have "learnFlags w' 0" by simp
  with w' h show ?thesis by simp
qed

text \<open>
  C10, as amended. When the loop over the samples ends with \<open>recallTotal = 0\<close>, the
  scale is the fallback 0 (no division is made) and the publish step completes; it leaves
  exactly -1 in \<open>recallBuffer\<close> at the sparse index of every dense pixel whose
  accumulator entry is finite, NaN at the sparse index of every dense pixel whose entry
  is an infinity or NaN, and every other index as it was.
\<close>

theorem zero_total_publish:
  assumes "length acc = length sp"
      and "distinct sp"
      and "list_all (\<lambda>sparseIndex. sparseIndex < length buf) sp"
  shows "recallScaleIEEE (length sp) (Finite 0) = Finite 0 \<and>
         (\<exists>buf'. publishIEEE sp acc (Finite 0) buf = Inr buf' \<and>
            length buf' = length buf \<and>
            (\<forall>d < length sp. isFinite (acc ! d) \<longrightarrow> buf' ! (sp ! d) = Finite (- 1)) \<and>
            (\<forall>d < length sp. \<not> isFinite (acc ! d) \<longrightarrow> buf' ! (sp ! d) = NaN) \<and>
            (\<forall>p. p \<notin> set sp \<longrightarrow> buf' ! p = buf ! p))"
proof -
  let ?n = "length sp"
  have k: "recallScaleIEEE ?n (Finite 0) = Finite 0"
    by (simp add: recallScaleIEEE_def truthy_def)
  have inb: "\<forall>d \<in> set [0..<?n]. d < length acc \<and> sp ! d < length buf"
    using assms(1,3) by (simp add: list_all_length)
  have dist: "distinct (map (\<lambda>d. sp ! d) [0..<?n])"
    using assms(2) by (simp add: map_nth)
  have img: "(\<lambda>d. sp ! d) ` set [0..<?n] = set sp"
    by (simp only: set_map [symmetric] map_nth)
  from publishPixelsIEEE_result [OF inb dist, of "Finite 0" ] obtain buf' where
    r: "publishPixelsIEEE sp acc (Finite 0) [0..<?n] buf = Inr buf'" and
    l: "length buf' = length buf" and
    o: "\<forall>p. p \<notin> (\<lambda>d. sp ! d) ` set [0..<?n] \<longrightarrow> buf' ! p = buf ! p" and
    i: "\<forall>d \<in> set [0..<?n]. buf' ! (sp ! d) = dadd (dmul (acc ! d) (Finite 0)) (Finite (- 1))"
    by blast
  have p: "publishIEEE sp acc (Finite 0) buf = Inr buf'"
    using r by (simp add: publishIEEE_def Let_def k)
  from i have 1: "\<forall>d < ?n. isFinite (acc ! d) \<longrightarrow> buf' ! (sp ! d) = Finite (- 1)"
    by (simp add: times_zero_minus_one)
  from i have 2: "\<forall>d < ?n. \<not> isFinite (acc ! d) \<longrightarrow> buf' ! (sp ! d) = NaN"
    by (simp add: times_zero_minus_one)
  from o have 3: "\<forall>p. p \<notin> set sp \<longrightarrow> buf' ! p = buf ! p" unfolding img .
  from k p l 1 2 3 show ?thesis by blast
qed

text \<open>
  The theorem on the mapping (unmapped, mapped) with a zero accumulator: pixel 1, the only
  dense pixel, gets -1 and pixel 0 keeps its value.
\<close>

theorem zero_total_publish_witness:
  "length [Finite 0] = length [1 :: nat] \<and> distinct [1 :: nat] \<and>
   list_all (\<lambda>sparseIndex. sparseIndex < length [Finite 0, Finite 0]) [1 :: nat] \<and>
   isFinite ([Finite 0] ! 0) \<and>
   recallScaleIEEE 1 (Finite 0) = Finite 0 \<and>
   publishIEEE [1] [Finite 0] (Finite 0) [Finite 0, Finite 0] = Inr [Finite 0, Finite (- 1)]"
proof -
  have h: "length [Finite 0] = length [1 :: nat]" "distinct [1 :: nat]"
    "list_all (\<lambda>sparseIndex. sparseIndex < length [Finite 0, Finite 0]) [1 :: nat]"
    by simp_all
  from zero_total_publish [OF h] obtain buf' where
    p: "publishIEEE [1] [Finite 0] (Finite 0) [Finite 0, Finite 0] = Inr buf'" and
    l: "length buf' = 2" and
    m: "isFinite ([Finite 0] ! 0) \<longrightarrow> buf' ! 1 = Finite (- 1)" and
    o: "\<forall>p. p \<notin> set [1 :: nat] \<longrightarrow> buf' ! p = [Finite 0, Finite 0] ! p"
    by auto
  have f: "isFinite ([Finite 0] ! 0)" by (simp add: isFinite_def)
  with m have 1: "buf' ! 1 = Finite (- 1)" by simp
  from o have 0: "buf' ! 0 = Finite 0" by simp
  from l obtain a b where ab: "buf' = [a, b]"
    by (cases buf'; cases "tl buf'") auto
  with 0 1 have "buf' = [Finite 0, Finite (- 1)]" by simp
  with p f h zero_total_publish [OF h] show ?thesis by simp
qed

text \<open>
  C10 as stated, -1 at every dense pixel, fails: with two dense pixels whose accumulator
  entries are the two infinities (sums that overflowed in opposite directions while the
  terms of \<open>recallTotal\<close> cancelled) and \<open>recallTotal = 0\<close>, the fallback scale 0
  is taken and both pixels get infinity times 0 minus 1, which is NaN.
\<close>

theorem zero_total_publish_counterexample:
  "\<not> truthy (Finite 0) \<and>
   publishIEEE [0, 1] [PosInf, NegInf] (Finite 0) [Finite 0, Finite 0] = Inr [NaN, NaN]"
  by (simp add: publishIEEE_def recallScaleIEEE_def truthy_def publishPixelIEEE_def Let_def
      signedInf_def upt_conv_Cons)

text \<open>
  C3, as amended. Take a sweep in which the motion of every sample is 0, on an object as
  \<open>start\<close> leaves it. If the sweep completes, no learn flag is set for any sample whose
  draw lies in (0, 1). If the draw of every sample lies in (0, 1), the sweep completes,
  no learn flag is set, no cell changes, and the publish step still runs: the recall
  buffer holds -1 at the sparse index of every dense pixel and keeps its former value at
  every other index.
\<close>

theorem idle_sweep:
  assumes wf: "wellFormed w"
      and still: "\<forall>s < kSamples. sobel_motion inp s = 0"
  shows "(\<forall>w'. sweep kSamples inp w = Inr w' \<longrightarrow>
            (\<forall>s < kSamples. 0 < prng_uniform inp s \<and> prng_uniform inp s < 1 \<longrightarrow>
               \<not> learnFlags w' s)) \<and>
         ((\<forall>s < kSamples. 0 < prng_uniform inp s \<and> prng_uniform inp s < 1) \<longrightarrow>
            (\<exists>w'. sweep kSamples inp w = Inr w' \<and>
               (\<forall>s < kSamples. \<not> learnFlags w' s) \<and>
               (\<forall>d < length (denseToSparsePixelIndex w).
                  recallBuffer w' ! (denseToSparsePixelIndex w ! d) = - 1) \<and>
               (\<forall>p. p \<notin> set (denseToSparsePixelIndex w) \<longrightarrow>
                  recallBuffer w' ! p = recallBuffer w ! p) \<and>
               length (recallBuffer w') = length (recallBuffer w) \<and>
               memoryBuffer w' = memoryBuffer w))"
proof -
  have part1: "\<not> learnFlags w' s"
    if run: "sweep kSamples inp w = Inr w'" and s: "s < kSamples"
      and u: "0 < prng_uniform inp s" for w' s
  proof -
    from run obtain w1 where 1: "sweepSamples kSamples inp w = Inr w1"
      and 2: "publish w1 = Inr w'"
      by (auto simp: sweep_def split: sum.splits)
    have "learnFlags w' s = isLearning (sobel_motion inp s) (prng_uniform inp s)"
      using sweepSamples_keeps(5) [OF 1 s] publish_keeps_flags [OF 2] by simp
    also have "\<dots> = isLearning 0 (prng_uniform inp s)" using still s by simp
    finally show ?thesis using u by (simp add: isLearning_zero_motion)
  qed
  have part2: "\<exists>w'. sweep kSamples inp w = Inr w' \<and>
               (\<forall>s < kSamples. \<not> learnFlags w' s) \<and>
               (\<forall>d < length (denseToSparsePixelIndex w).
                  recallBuffer w' ! (denseToSparsePixelIndex w ! d) = - 1) \<and>
               (\<forall>p. p \<notin> set (denseToSparsePixelIndex w) \<longrightarrow>
                  recallBuffer w' ! p = recallBuffer w ! p) \<and>
               length (recallBuffer w') = length (recallBuffer w) \<and>
               memoryBuffer w' = memoryBuffer w"
    if draws: "\<forall>s < kSamples. 0 < prng_uniform inp s \<and> prng_uniform inp s < 1"
  proof -
    let ?w0 = "w\<lparr>recallTotal := 0,
            recallAccumulator := replicate (length (recallAccumulator w)) 0\<rparr>"
    have quiet: "\<forall>s \<in> set [0..<kSamples].
                   \<not> isLearning (sobel_motion inp s) (prng_uniform inp s)"
      using still draws by (auto simp: isLearning_zero_motion)
    from learnSamples_idle [OF quiet, of ?w0] obtain f where
      run: "sweepSamples kSamples inp w = Inr (?w0\<lparr>learnFlags := f\<rparr>)"
      by (auto simp: sweepSamples_def)
    let ?w1 = "?w0\<lparr>learnFlags := f\<rparr>"
    have wf1: "wellFormed ?w1" by (rule wellFormed_sweepSamples [OF wf run])
    have flags: "\<forall>s < kSamples. \<not> learnFlags ?w1 s"
      using sweepSamples_keeps(5) [OF run] quiet by auto
    from publish_result [OF wf1] obtain w' where
      p: "publish ?w1 = Inr w'" and
      fl: "learnFlags w' = learnFlags ?w1" and
      mem: "memoryBuffer w' = memoryBuffer ?w1" and
      len: "length (recallBuffer w') = length (recallBuffer ?w1)" and
      out: "\<forall>p. p \<notin> set (denseToSparsePixelIndex ?w1) \<longrightarrow>
                  recallBuffer w' ! p = recallBuffer ?w1 ! p" and
      dense: "\<forall>d < length (denseToSparsePixelIndex ?w1).
                recallBuffer w' ! (denseToSparsePixelIndex ?w1 ! d)
                  = recallAccumulator ?w1 ! d *
                      (if recallTotal ?w1 \<noteq> 0
                       then real (length (denseToSparsePixelIndex ?w1)) / recallTotal ?w1
                       else 0) - 1"
      by blast
    have s: "sweep kSamples inp w = Inr w'" using run p by (simp add: sweep_def)
    from flags fl have 1: "\<forall>s < kSamples. \<not> learnFlags w' s" by simp
    from dense have 2: "\<forall>d < length (denseToSparsePixelIndex w).
                recallBuffer w' ! (denseToSparsePixelIndex w ! d) = - 1" by simp
    from out have 3: "\<forall>p. p \<notin> set (denseToSparsePixelIndex w) \<longrightarrow>
                recallBuffer w' ! p = recallBuffer w ! p" by simp
    from s 1 2 3 len mem show ?thesis by simp
  qed
  from part1 part2 show ?thesis by blast
qed

text \<open>
  The theorem twice: on the mapping (unmapped, mapped) with the draw 1/2 the flag stays
  clear, pixel 0 keeps 0 and pixel 1 gets -1; with two samples and the draws 0 and 1/2
  the flag of sample 1 stays clear, while sample 0 passes the gate and its cell changes.
\<close>

theorem idle_sweep_witness:
  "wellFormed (freshWorker 1 [False, True]) \<and>
   sobel_motion (steadyInput 0 (1 / 2) (Some white)) 0 = 0 \<and>
   0 < prng_uniform (steadyInput 0 (1 / 2) (Some white)) 0 \<and>
   prng_uniform (steadyInput 0 (1 / 2) (Some white)) 0 < 1 \<and>
   map_sum id (\<lambda>w'. (learnFlags w' 0, recallBuffer w' ! 0, recallBuffer w' ! 1))
     (sweep 1 (steadyInput 0 (1 / 2) (Some white)) (freshWorker 1 [False, True]))
     = Inr (False, 0, - 1) \<and>
   wellFormed (freshWorker 2 [True]) \<and>
   sobel_motion mixedDraws 0 = 0 \<and> sobel_motion mixedDraws 1 = 0 \<and>
   prng_uniform mixedDraws 0 = 0 \<and>
   0 < prng_uniform mixedDraws 1 \<and> prng_uniform mixedDraws 1 < 1 \<and>
   map_sum id (\<lambda>w'. (learnFlags w' 0, learnFlags w' 1, memoryBuffer w' ! 0))
     (sweep 2 mixedDraws (freshWorker 2 [True]))
     = Inr (True, False, \<lparr>shortTerm = 1, longTerm = 1 / 10000\<rparr>)"
proof -
  let ?inp = "steadyInput 0 (1 / 2) (Some white)"
  let ?w = "freshWorker 1 [False, True]"
  have wf: "wellFormed ?w" by (simp add: evaluation)
  have still: "\<forall>s < 1. sobel_motion ?inp s = 0" by (simp add: steadyInput_def)
  have draws: "\<forall>s < 1. 0 < prng_uniform ?inp s \<and> prng_uniform ?inp s < 1"
    by (simp add: steadyInput_def)
  have d: "denseToSparsePixelIndex ?w = [1]" "recallBuffer ?w = [0, 0]"
    by (simp_all add: evaluation)
  from idle_sweep [OF wf still] draws obtain w' where
    "sweep 1 ?inp ?w = Inr w'" "\<not> learnFlags w' 0" "recallBuffer w' ! 1 = - 1"
    "recallBuffer w' ! 0 = 0"
    unfolding d by auto
  then have a: "map_sum id (\<lambda>w'. (learnFlags w' 0, recallBuffer w' ! 0, recallBuffer w' ! 1))
     (sweep 1 ?inp ?w) = Inr (False, 0, - 1)" by simp
  let ?v = "freshWorker 2 [True]"
  have wf2: "wellFormed ?v" by (simp add: evaluation)
  have still2: "\<forall>s < 2. sobel_motion mixedDraws s = 0" by (simp add: mixedDraws_def)
  have e: "map_sum id (\<lambda>w'. (learnFlags w' 0, memoryBuffer w' ! 0)) (sweep 2 mixedDraws ?v)
      = Inr (True, \<lparr>shortTerm = 1, longTerm = 1 / 10000\<rparr>)"
    by (simp add: evaluation mixedDraws_def)
  then obtain v' where v': "sweep 2 mixedDraws ?v = Inr v'"
    by (cases "sweep 2 mixedDraws ?v") simp_all
  have u1: "0 < prng_uniform mixedDraws 1 \<and> prng_uniform mixedDraws 1 < 1"
    by (simp add: mixedDraws_def)
  from idle_sweep [OF wf2 still2] v' u1 have "\<not> learnFlags v' 1" by simp
  with e v' have b: "map_sum id (\<lambda>w'. (learnFlags w' 0, learnFlags w' 1, memoryBuffer w' ! 0))
     (sweep 2 mixedDraws ?v) = Inr (True, False, \<lparr>shortTerm = 1, longTerm = 1 / 10000\<rparr>)"
    by simp
  from wf wf2 a b u1 show ?thesis by (simp add: steadyInput_def mixedDraws_def)
qed

text \<open>
  C3 as stated fails twice. With no motion and the draw 1/2 the recall buffer of a fresh
  worker goes from 0 to -1; with no motion and the draw 0 the gate \<open>0 >= 0\<close> holds
  and the learn flag is set.
\<close>

theorem idle_sweep_counterexample:
  "recallBuffer (freshWorker 1 [True]) = [0] \<and>
   map_sum id recallBuffer
     (sweep 1 (steadyInput 0 (1 / 2) (Some white)) (freshWorker 1 [True])) = Inr [- 1] \<and>
   sobel_motion (steadyInput 0 0 (Some white)) 0 = 0 \<and>
   map_sum id (\<lambda>w'. learnFlags w' 0)
     (sweep 1 (steadyInput 0 0 (Some white)) (freshWorker 1 [True])) = Inr True"
  by (simp add: evaluation)

text \<open>
  C2. The accumulation writes \<open>recallAccumulator\<close> at the sparse index. With the mapping
  (unmapped, mapped) the only dense pixel has sparse index 1 and the accumulator has
  length 1: the write is out of bounds.
\<close>

theorem accumulator_write_out_of_bounds:
  "denseToSparsePixelIndex (freshWorker 1 [False, True]) = [1] \<and>
   length (recallAccumulator (freshWorker 1 [False, True])) = 1 \<and>
   learnPixel 100 255 white 0 0 (freshWorker 1 [False, True]) = Inl (AccumulatorOutOfBounds 1)"
  by (simp add: evaluation)

text \<open>
  C1. With the mapping (unmapped, mapped, mapped) and motion on every sample, the sweep
  does not reach the publish step: the second accumulation writes index 2 of an
  accumulator of length 2.
\<close>

theorem sweep_faults_when_mapping_has_gap:
  "wellFormed (freshWorker 2 [False, True, True]) \<and>
   denseToSparsePixelIndex (freshWorker 2 [False, True, True]) = [1, 2] \<and>
   sweep 2 (steadyInput 100 (1 / 2) (Some white)) (freshWorker 2 [False, True, True])
     = Inl (AccumulatorOutOfBounds 2)"
  by (simp add: evaluation)

text \<open>
  Every sweep that completes has a recall buffer of mean 0 over the dense pixels
  (\<open>fault_free_sweep_mean\<close>), and with every pixel mapped every sweep completes
  (\<open>dense_mapping_sweep_mean\<close>); for instance:
\<close>

lemma dense_mapping_sweep_example:
  "map_sum id (\<lambda>w'. (recallTotal w', recallBuffer w'))
     (sweep 2 (steadyInput 100 (1 / 2) (Some white)) (freshWorker 2 [True, True]))
     = Inr (1 / 25, [0, 0])"
  by (simp add: evaluation)

section \<open>The claims about start\<close>

text \<open>
  A failing \<open>open\<close> and a failing \<open>ftruncate\<close> are each reported with their own
  message and leave the thread unstarted and the recall buffer at zero; so does a null
  pointer from \<open>mmap\<close>.
\<close>

lemma start_open_failure:
  assumes "open_returns os < 0"
  shows "stderr (start kSamples os file pixelInfo this)
           = [Fprintf ''vismem: %d camera samples * %d LED pixels = %d cells'',
              Perror ''vismem: Error opening mapping file''] \<and>
         learnThread (self (start kSamples os file pixelInfo this)) = learnThread this \<and>
         backingFile (start kSamples os file pixelInfo this) = file \<and>
         recallBuffer (self (start kSamples os file pixelInfo newVisualMemory))
           = replicate (length pixelInfo) 0"
  using assms by (simp add: start_def Let_def resize_def newVisualMemory_def)

lemma start_resize_failure:
  assumes "0 \<le> open_returns os" "ftruncate_returns os \<noteq> 0"
  shows "stderr (start kSamples os file pixelInfo this)
           = [Fprintf ''vismem: %d camera samples * %d LED pixels = %d cells'',
              Perror ''vismem: Error setting length of mapping file''] \<and>
         learnThread (self (start kSamples os file pixelInfo this)) = learnThread this \<and>
         recallBuffer (self (start kSamples os file pixelInfo newVisualMemory))
           = replicate (length pixelInfo) 0"
  using assms by (simp add: start_def Let_def resize_def newVisualMemory_def)

lemma start_null_mapping:
  assumes "0 \<le> open_returns os" "ftruncate_returns os = 0" "mmap_returns os = 0"
  shows "stderr (start kSamples os file pixelInfo this)
           = [Fprintf ''vismem: %d camera samples * %d LED pixels = %d cells'',
              Perror ''vismem: Error mapping memory file''] \<and>
         learnThread (self (start kSamples os file pixelInfo this)) = learnThread this"
  using assms by (simp add: start_def Let_def)

text \<open>
  C5. \<open>mmap\<close> reports a failure with \<open>MAP_FAILED\<close>, which is not null: \<open>start\<close>
  tests for null, prints no error, keeps the failed address and starts the learning
  thread.
\<close>

theorem start_misses_failed_mapping:
  "mmap_returns (answeringCalls MAP_FAILED) = MAP_FAILED \<and>
   learnThread (self (start 1 (answeringCalls MAP_FAILED) None [True] newVisualMemory)) \<and>
   mappedMemory (self (start 1 (answeringCalls MAP_FAILED) None [True] newVisualMemory)) = MAP_FAILED \<and>
   stderr (start 1 (answeringCalls MAP_FAILED) None [True] newVisualMemory)
     = [Fprintf ''vismem: %d camera samples * %d LED pixels = %d cells'',
        Fprintf ''vismem: Mapped %d cells at %p'']"
  by (simp add: start_def Let_def answeringCalls_def MAP_FAILED_def newVisualMemory_def
      buildDenseToSparse_def resize_def)

text \<open>
  C4, as amended. When the backing file exists with any length (in particular one that
  differs from the size of the grid) and the three calls succeed, \<open>start\<close> sets the
  length of the file to 16 bytes per cell, reports no error and starts the learning
  thread.
\<close>

theorem start_resizes_existing_file:
  assumes "0 \<le> open_returns os" "ftruncate_returns os = 0" "mmap_returns os \<noteq> 0"
  shows "backingFile (start kSamples os (Some n) pixelInfo this)
           = Some (((kSamples * length (buildDenseToSparse pixelInfo)) mod 2 ^ 32) * 16) \<and>
         learnThread (self (start kSamples os (Some n) pixelInfo this)) \<and>
         (\<forall>msg. Perror msg \<notin> set (stderr (start kSamples os (Some n) pixelInfo this)))"
  using assms by (simp add: start_def Let_def)

text \<open>
  The theorem on a file of 32 bytes and a grid of one cell.
\<close>

theorem start_resizes_existing_file_witness:
  "0 \<le> open_returns (answeringCalls 4096) \<and>
   ftruncate_returns (answeringCalls 4096) = 0 \<and>
   mmap_returns (answeringCalls 4096) \<noteq> 0 \<and>
   backingFile (start 1 (answeringCalls 4096) (Some 32) [True] newVisualMemory) = Some 16 \<and>
   learnThread (self (start 1 (answeringCalls 4096) (Some 32) [True] newVisualMemory))"
proof -
  have h: "0 \<le> open_returns (answeringCalls 4096)" "ftruncate_returns (answeringCalls 4096) = 0"
    "mmap_returns (answeringCalls 4096) \<noteq> 0"
    by (simp_all add: answeringCalls_def)
  from start_resizes_existing_file [OF h, of 1 32 "[True]" newVisualMemory] h
  show ?thesis by (simp add: buildDenseToSparse_def)
qed

text \<open>
  C4 as stated fails: a file of 32 bytes for a grid of one cell (16 bytes) is cut to 16
  bytes, nothing but the two progress lines is printed, and the thread is started.
\<close>

theorem wrong_size_file_counterexample:
  "(32 :: nat) \<noteq> 1 * length (buildDenseToSparse [True]) * 16 \<and>
   learnThread (self (start 1 (answeringCalls 4096) (Some 32) [True] newVisualMemory)) \<and>
   stderr (start 1 (answeringCalls 4096) (Some 32) [True] newVisualMemory)
     = [Fprintf ''vismem: %d camera samples * %d LED pixels = %d cells'',
        Fprintf ''vismem: Mapped %d cells at %p''] \<and>
   backingFile (start 1 (answeringCalls 4096) (Some 32) [True] newVisualMemory) = Some 16"
  by (simp add: start_def Let_def answeringCalls_def newVisualMemory_def
      buildDenseToSparse_def resize_def)

section \<open>The claim about debug\<close>

text \<open>
  With \<open>cellMax = 0\<close> the scale is the infinity, every product with it is an infinity
  or NaN, and \<open>std::min\<close> then returns its first argument 255.5: every channel is 255.
\<close>

lemma reciprocal_of_zero: "ddiv (Finite 1) (Finite 0) = PosInf"
  by (simp add: signedInf_def)

lemma channel_of_zero_max: "channel PosInf v = Inr 255"
proof -
  consider "v = 0" | "0 < v" | "v < 0" by linarith
  then show ?thesis
  proof cases
    case 1
    then show ?thesis by (simp add: channel_def Let_def signedInf_def std_min_def)
  next
    case 2
    then show ?thesis by (simp add: channel_def Let_def signedInf_def std_min_def)
  next
    case 3
    then show ?thesis by (simp add: channel_def Let_def signedInf_def std_min_def)
  qed
qed

text \<open>
  C6. On the all-zero grid of two samples and one pixel the image is all 255, not all 0.
\<close>

theorem debug_of_zero_grid:
  "debug stripSampler [0] [\<lparr>shortTerm = 0, longTerm = 0\<rparr>, \<lparr>shortTerm = 0, longTerm = 0\<rparr>]
     = Inr [255, 255, 255, 255, 255, 255]"
  by (simp add: debug_def Let_def stripSampler_def std_max_def drawCell_def channel_of_zero_max
      signedInf_def upt_conv_Cons eval_nat_numeral)

text \<open>
  For comparison, a grid whose maximum is 1.
\<close>

lemma debug_of_unit_grid:
  "debug stripSampler [0] [\<lparr>shortTerm = 1 / 2, longTerm = 1\<rparr>, \<lparr>shortTerm = 0, longTerm = 0\<rparr>]
     = Inr [16, 255, 255, 0, 0, 0]"
  by (simp add: debug_def Let_def stripSampler_def std_max_def drawCell_def channel_def
      std_min_def upt_conv_Cons eval_nat_numeral)

end
